theory Spec2Isabelle
  imports Complex_Main "HOL-Library.Char_ord" "HOL-Library.List_Lexorder"
begin

section \<open>Synthetic data generator (src/extract_data.py)\<close>

subsection \<open>Dates\<close>

text \<open>
  A calendar date is represented by its proleptic Gregorian ordinal, the number that
  Python's \<^verbatim>\<open>date.toordinal()\<close> returns (0001-01-01 is day 1, a Monday).
  \<^verbatim>\<open>date.weekday()\<close> is computed by CPython as \<^verbatim>\<open>(toordinal() + 6) % 7\<close>,
  with Monday = 0 and Sunday = 6.
\<close>

type_synonym date = int

definition is_leap :: "int \<Rightarrow> bool" where
  "is_leap y = (y mod 4 = 0 \<and> (y mod 100 \<noteq> 0 \<or> y mod 400 = 0))"

definition days_before_year :: "int \<Rightarrow> int" where
  "days_before_year year =
     (let y = year - 1 in y * 365 + y div 4 - y div 100 + y div 400)"

definition days_before_month :: "int \<Rightarrow> nat \<Rightarrow> int" where
  "days_before_month year month =
     [0, 31, 59, 90, 120, 151, 181, 212, 243, 273, 304, 334] ! (month - 1)
       + (if 2 < month \<and> is_leap year then 1 else 0)"

text \<open>The ordinal of a date given as year, month (1..12) and day of the month.\<close>

definition ymd2ord :: "int \<Rightarrow> nat \<Rightarrow> int \<Rightarrow> date" where
  "ymd2ord year month day = days_before_year year + days_before_month year month + day"

definition weekday :: "date \<Rightarrow> int" where
  "weekday d = (d + 6) mod 7"

text \<open>
  \<^verbatim>\<open>pd.date_range(start=start_date, end=end_date, freq='D')\<close>: every day from the
  start to the end, both included; empty when the end is before the start.
\<close>

definition date_range :: "date \<Rightarrow> date \<Rightarrow> date list" where
  "date_range start_date end_date = [start_date..end_date]"

subsection \<open>The random number generator\<close>

text \<open>
  The generator draws from numpy's global pseudo-random generator. The library is a
  parameter of the model: a state type \<open>'g\<close>, the state that \<^verbatim>\<open>np.random.seed(s)\<close>
  installs, and one function per distribution that takes the current state and returns
  the draw with the next state. Poisson and binomial draws are counts, hence \<open>nat\<close>.
\<close>

record 'g numpy_random =
  np_seed :: "int \<Rightarrow> 'g"
  np_poisson :: "real \<Rightarrow> 'g \<Rightarrow> nat \<times> 'g"
  np_binomial :: "nat \<Rightarrow> real \<Rightarrow> 'g \<Rightarrow> nat \<times> 'g"
  np_normal :: "real \<Rightarrow> real \<Rightarrow> 'g \<Rightarrow> real \<times> 'g"

subsection \<open>Channel parameters\<close>

record profile =
  avg_sessions :: real
  avg_conv_rate :: real
  avg_spend :: real
  avg_revenue_per_conv :: real

text \<open>The \<^verbatim>\<open>if/elif/else\<close> chain of lines 41-65; the last branch takes every other name.\<close>

definition channel_profile :: "string \<Rightarrow> profile" where
  "channel_profile source =
     (if source = ''Google Ads'' then
        \<lparr>avg_sessions = 1500, avg_conv_rate = 5 / 100, avg_spend = 3000,
         avg_revenue_per_conv = 150\<rparr>
      else if source = ''Facebook Ads'' then
        \<lparr>avg_sessions = 1200, avg_conv_rate = 4 / 100, avg_spend = 2500,
         avg_revenue_per_conv = 120\<rparr>
      else if source = ''LinkedIn'' then
        \<lparr>avg_sessions = 400, avg_conv_rate = 6 / 100, avg_spend = 1500,
         avg_revenue_per_conv = 200\<rparr>
      else if source = ''Email'' then
        \<lparr>avg_sessions = 800, avg_conv_rate = 8 / 100, avg_spend = 500,
         avg_revenue_per_conv = 100\<rparr>
      else
        \<lparr>avg_sessions = 2000, avg_conv_rate = 3 / 100, avg_spend = 0,
         avg_revenue_per_conv = 80\<rparr>)"

definition weekday_factor :: "date \<Rightarrow> real" where
  "weekday_factor d = (if 5 \<le> weekday d then 7 / 10 else 1)"

subsection \<open>Records\<close>

text \<open>
  One dictionary appended to \<^verbatim>\<open>data\<close>. The \<open>date\<close> field holds the date itself; the
  source stores its rendering \<^verbatim>\<open>date.strftime('%Y-%m-%d')\<close>. Monetary amounts are
  Python floats, modelled as real numbers.
\<close>

record row =
  date :: date
  source :: string
  sessions :: int
  conversions :: int
  revenue :: real
  spend :: real

text \<open>
  \<^verbatim>\<open>round(x, 2)\<close>: to the nearest multiple of 0.01, a tie going to the even one
  (on the real number; a binary float is rarely an exact tie).
\<close>

definition round_half_even :: "real \<Rightarrow> int" where
  "round_half_even x =
     (let f = \<lfloor>x\<rfloor>; d = x - of_int f
      in if d < 1 / 2 then f else if 1 / 2 < d then f + 1
         else if even f then f else f + 1)"

definition py_round2 :: "real \<Rightarrow> real" where
  "py_round2 x = of_int (round_half_even (x * 100)) / 100"

subsection \<open>The generation loop\<close>

text \<open>The body of the inner loop, lines 40-87: the record and the state after its draws.\<close>

definition generate_row :: "'g numpy_random \<Rightarrow> date \<Rightarrow> string \<Rightarrow> 'g \<Rightarrow> row \<times> 'g" where
  "generate_row np d src g0 =
     (let p = channel_profile src;
          (n_sessions, g1) = np_poisson np (avg_sessions p * weekday_factor d) g0;
          (n_conversions, g2) = np_binomial np n_sessions (avg_conv_rate p) g1;
          (spend0, g3) =
             (if 0 < avg_spend p then np_normal np (avg_spend p) (avg_spend p * (2 / 10)) g2
              else (0, g2));
          (value, g4) =
             np_normal np (avg_revenue_per_conv p) (avg_revenue_per_conv p * (3 / 10)) g3;
          revenue0 = of_nat n_conversions * value;
          spend1 = max 0 spend0;
          revenue1 = max 0 revenue0
      in (\<lparr>date = d, source = src, sessions = int n_sessions,
            conversions = int n_conversions, revenue = py_round2 revenue1,
            spend = py_round2 spend1\<rparr>, g4))"

text \<open>\<^verbatim>\<open>for source in sources\<close>, for one date.\<close>

fun generate_day :: "'g numpy_random \<Rightarrow> date \<Rightarrow> string list \<Rightarrow> 'g \<Rightarrow> row list \<times> 'g" where
  "generate_day np d [] g = ([], g)"
| "generate_day np d (src # srcs) g =
     (let (r, g') = generate_row np d src g;
          (rs, g'') = generate_day np d srcs g'
      in (r # rs, g''))"

text \<open>\<^verbatim>\<open>for date in dates\<close>.\<close>

fun generate_days :: "'g numpy_random \<Rightarrow> date list \<Rightarrow> string list \<Rightarrow> 'g \<Rightarrow> row list \<times> 'g" where
  "generate_days np [] srcs g = ([], g)"
| "generate_days np (d # ds) srcs g =
     (let (rs, g') = generate_day np d srcs g;
          (rss, g'') = generate_days np ds srcs g'
      in (rs @ rss, g''))"

text \<open>
  \<^verbatim>\<open>generate_marketing_data(start_date, end_date, sources)\<close>. The argument \<open>g_before\<close>
  is the state of numpy's global generator when the function is called; the result is
  the data frame (its rows in order) and the state the call leaves behind.
\<close>

definition generate_marketing_data ::
  "'g numpy_random \<Rightarrow> 'g \<Rightarrow> date \<Rightarrow> date \<Rightarrow> string list \<Rightarrow> row list \<times> 'g" where
  "generate_marketing_data np g_before start_date end_date sources =
     (let dates = date_range start_date end_date;
          g = np_seed np 42
      in generate_days np dates sources g)"

abbreviation default_sources :: "string list" where
  "default_sources \<equiv> [''Google Ads'', ''Facebook Ads'', ''LinkedIn'', ''Email'', ''Direct'']"

text \<open>
  A small deterministic instance of the library, used to run the generator on concrete
  inputs: the state is a counter, and every draw advances it by one.
\<close>

definition toy_random :: "nat numpy_random" where
  "toy_random =
     \<lparr>np_seed = (\<lambda>s. nat s),
      np_poisson = (\<lambda>lam g. (nat \<lfloor>lam\<rfloor> + g mod 3, Suc g)),
      np_binomial = (\<lambda>n p g. (if g mod 2 = 0 then 0 else n div 20, Suc g)),
      np_normal = (\<lambda>mu sd g. (mu + sd * 3 * (real (Suc g mod 5) - 2), Suc g))\<rparr>"

section \<open>Dashboard (src/dashboard.py)\<close>

subsection \<open>Data frames and float division\<close>

text \<open>
  One row of the query result: the columns \<^verbatim>\<open>date, marketing_source, spend, sessions,
  conversions, revenue\<close> of the staging table \<^verbatim>\<open>stg_marketing_daily\<close>. The columns shared
  with the generator's records carry the prefix \<open>stg_\<close>. A data frame is the list of
  its rows.
\<close>

record stg_row =
  stg_date :: date
  marketing_source :: string
  stg_spend :: real
  stg_sessions :: int
  stg_conversions :: int
  stg_revenue :: real

type_synonym data_frame = "stg_row list"

text \<open>
  The quotient of two float64 columns. pandas divides element by element with IEEE 754
  semantics and raises nothing: a non-zero number over zero is an infinity, zero over
  zero is NaN.
\<close>

datatype float64 = Finite real | PosInf | NegInf | NaN

definition truediv :: "real \<Rightarrow> real \<Rightarrow> float64" where
  "truediv x y =
     (if y \<noteq> 0 then Finite (x / y)
      else if x = 0 then NaN else if 0 < x then PosInf else NegInf)"

text \<open>Python's \<^verbatim>\<open>x < c\<close> on a float: false whenever \<open>x\<close> is NaN.\<close>

fun float_less :: "float64 \<Rightarrow> real \<Rightarrow> bool" where
  "float_less (Finite x) c = (x < c)"
| "float_less NegInf c = True"
| "float_less PosInf c = False"
| "float_less NaN c = False"

text \<open>
  The order \<^verbatim>\<open>sort_values(ascending=True)\<close> puts a float column in: ascending, with
  NaN after everything else.
\<close>

fun float_le :: "float64 \<Rightarrow> float64 \<Rightarrow> bool" where
  "float_le NaN NaN = True"
| "float_le NaN y = False"
| "float_le x NaN = True"
| "float_le NegInf y = True"
| "float_le x PosInf = True"
| "float_le (Finite x) (Finite y) = (x \<le> y)"
| "float_le x y = False"

text \<open>
  \<^verbatim>\<open>sort_values\<close> as an insertion sort by a given order that keeps rows with equal
  keys in their previous order. (pandas leaves the order of such rows open.)
\<close>

fun insert_sorted :: "('a \<Rightarrow> 'a \<Rightarrow> bool) \<Rightarrow> 'a \<Rightarrow> 'a list \<Rightarrow> 'a list" where
  "insert_sorted le x [] = [x]"
| "insert_sorted le x (y # ys) = (if le x y then x # y # ys else y # insert_sorted le x ys)"

definition sort_values :: "('a \<Rightarrow> 'a \<Rightarrow> bool) \<Rightarrow> 'a list \<Rightarrow> 'a list" where
  "sort_values le xs = foldr (insert_sorted le) xs []"

text \<open>
  \<^verbatim>\<open>df.groupby(col)\<close>: the distinct keys in ascending order, and for each key the sum
  of a column over the rows that carry it.
\<close>

definition group_keys :: "('r \<Rightarrow> 'k::linorder) \<Rightarrow> 'r list \<Rightarrow> 'k list" where
  "group_keys col df = sort (remdups (map col df))"

definition group_sum :: "('r \<Rightarrow> 'k) \<Rightarrow> ('r \<Rightarrow> 'a::monoid_add) \<Rightarrow> 'r list \<Rightarrow> 'k \<Rightarrow> 'a" where
  "group_sum col val df k = sum_list (map val (filter (\<lambda>r. col r = k) df))"

subsection \<open>Key figures and charts\<close>

record kpis =
  total_spend :: real
  total_revenue :: real
  total_conversions :: int
  total_sessions :: int
  avg_roas :: real
  avg_roi :: real
  conversion_rate :: real

text \<open>\<^verbatim>\<open>display_kpis(df)\<close>: the totals and the three guarded ratios of lines 131-139.\<close>

definition display_kpis :: "data_frame \<Rightarrow> kpis" where
  "display_kpis df =
     (let t_spend = sum_list (map stg_spend df);
          t_revenue = sum_list (map stg_revenue df);
          t_conversions = sum_list (map stg_conversions df);
          t_sessions = sum_list (map stg_sessions df)
      in \<lparr>total_spend = t_spend, total_revenue = t_revenue,
           total_conversions = t_conversions, total_sessions = t_sessions,
           avg_roas = (if 0 < t_spend then t_revenue / t_spend else 0),
           avg_roi = (if 0 < t_spend then (t_revenue - t_spend) / t_spend * 100 else 0),
           conversion_rate =
             (if 0 < t_sessions then of_int t_conversions / of_int t_sessions * 100 else 0)\<rparr>)"

text \<open>\<^verbatim>\<open>plot_daily_trend(df)\<close>: per date, the sums of spend and of revenue.\<close>

record trend_chart =
  trend_dates :: "date list"
  trend_spend :: "real list"
  trend_revenue :: "real list"

definition plot_daily_trend :: "data_frame \<Rightarrow> trend_chart" where
  "plot_daily_trend df =
     (let days = group_keys stg_date df
      in \<lparr>trend_dates = days,
           trend_spend = map (group_sum stg_date stg_spend df) days,
           trend_revenue = map (group_sum stg_date stg_revenue df) days\<rparr>)"

text \<open>
  \<^verbatim>\<open>plot_channel_performance(df)\<close>. \<open>channel_performance_agg\<close> is the frame
  \<^verbatim>\<open>source_agg\<close> after line 233: one row per channel with the four sums and the
  quotient \<^verbatim>\<open>revenue / spend\<close>, ordered by revenue. The figure shows the spend and
  the revenue bars.
\<close>

record perf_agg =
  perf_source :: string
  perf_spend :: real
  perf_revenue :: real
  perf_conversions :: int
  perf_sessions :: int
  perf_roas :: float64

definition channel_performance_agg :: "data_frame \<Rightarrow> perf_agg list" where
  "channel_performance_agg df =
     (let source_agg =
            map (\<lambda>k. \<lparr>perf_source = k,
                       perf_spend = group_sum marketing_source stg_spend df k,
                       perf_revenue = group_sum marketing_source stg_revenue df k,
                       perf_conversions = group_sum marketing_source stg_conversions df k,
                       perf_sessions = group_sum marketing_source stg_sessions df k,
                       perf_roas = truediv (group_sum marketing_source stg_revenue df k)
                                     (group_sum marketing_source stg_spend df k)\<rparr>)
              (group_keys marketing_source df)
      in sort_values (\<lambda>a b. perf_revenue a \<le> perf_revenue b) source_agg)"

record perf_chart =
  perf_y :: "string list"
  perf_x_spend :: "real list"
  perf_x_revenue :: "real list"

definition plot_channel_performance :: "data_frame \<Rightarrow> perf_chart" where
  "plot_channel_performance df =
     (let source_agg = channel_performance_agg df
      in \<lparr>perf_y = map perf_source source_agg,
           perf_x_spend = map perf_spend source_agg,
           perf_x_revenue = map perf_revenue source_agg\<rparr>)"

text \<open>
  \<^verbatim>\<open>plot_roas_by_source(df)\<close>. \<open>roas_by_source_agg\<close> is \<^verbatim>\<open>source_agg\<close> after
  line 284; the figure has one bar per channel, of length the ROAS, with the colour of
  lines 287-288. (The bar labels, the ROAS printed with two decimals, are left out.)
\<close>

record roas_agg =
  roas_source :: string
  roas_spend :: real
  roas_revenue :: real
  roas :: float64

definition roas_by_source_agg :: "data_frame \<Rightarrow> roas_agg list" where
  "roas_by_source_agg df =
     (let source_agg =
            map (\<lambda>k. \<lparr>roas_source = k,
                       roas_spend = group_sum marketing_source stg_spend df k,
                       roas_revenue = group_sum marketing_source stg_revenue df k,
                       roas = truediv (group_sum marketing_source stg_revenue df k)
                                (group_sum marketing_source stg_spend df k)\<rparr>)
              (group_keys marketing_source df)
      in sort_values (\<lambda>a b. float_le (roas a) (roas b)) source_agg)"

definition roas_color :: "float64 \<Rightarrow> string" where
  "roas_color x =
     (if float_less x 1 then ''#FF6B6B'' else if float_less x 2 then ''#FFD93D''
      else ''#6BCF7F'')"

record roas_chart =
  roas_y :: "string list"
  roas_x :: "float64 list"
  roas_colors :: "string list"

definition plot_roas_by_source :: "data_frame \<Rightarrow> roas_chart" where
  "plot_roas_by_source df =
     (let source_agg = roas_by_source_agg df
      in \<lparr>roas_y = map roas_source source_agg,
           roas_x = map roas source_agg,
           roas_colors = map (\<lambda>r. roas_color (roas r)) source_agg\<rparr>)"

text \<open>\<^verbatim>\<open>plot_conversion_funnel(df)\<close>: total sessions, then total conversions.\<close>

definition plot_conversion_funnel :: "data_frame \<Rightarrow> int \<times> int" where
  "plot_conversion_funnel df =
     (sum_list (map stg_sessions df), sum_list (map stg_conversions df))"

subsection \<open>Loading and the page\<close>

text \<open>
  The BigQuery client is the service that runs the parameterised query for a start and
  an end date: it returns the rows, or the text of the exception it raises. \<open>None\<close>
  is the client of a failed connection.
\<close>

type_synonym bq_client = "date \<Rightarrow> date \<Rightarrow> string + data_frame"

text \<open>What the page shows, in order. Titles, rulers and the footer are left out.\<close>

datatype ui =
    Error string
  | Warning string
  | SidebarMetric string nat
  | Kpis kpis
  | TrendChart trend_chart
  | RoasChart roas_chart
  | PerfChart perf_chart
  | FunnelChart "int \<times> int"
  | DataTable data_frame

text \<open>
  The body of \<^verbatim>\<open>load_marketing_data(_client, start_date, end_date)\<close>: the data frame
  returned and the messages shown. (The decorator \<^verbatim>\<open>st.cache_data(ttl=300)\<close>
  memoises the function per pair of dates; the model is one execution of the body.)
\<close>

definition load_marketing_data ::
  "bq_client option \<Rightarrow> date \<Rightarrow> date \<Rightarrow> data_frame \<times> ui list" where
  "load_marketing_data client start_date end_date =
     (case client of
        None \<Rightarrow> ([], [])
      | Some run_query \<Rightarrow>
          (case run_query start_date end_date of
             Inr df \<Rightarrow> (df, [])
           | Inl e \<Rightarrow> ([], [Error (''Error loading data: '' @ e)])))"

text \<open>
  \<^verbatim>\<open>main()\<close>, given the result of \<^verbatim>\<open>get_bigquery_client()\<close>, the two dates of the
  date inputs and the choice made in the channel select box. The result is what the
  page shows; every \<^verbatim>\<open>return\<close> of the source ends the list.
\<close>

definition main :: "bq_client option \<Rightarrow> date \<Rightarrow> date \<Rightarrow> string \<Rightarrow> ui list" where
  "main client start_date end_date selected_source =
     (if client = None then
        [Error ''Unable to connect to BigQuery. Please check your credentials.'']
      else
        let (df, shown) = load_marketing_data client start_date end_date in
        if df = [] then
          shown @ [Warning ''No data available for the selected date range.'']
        else
          let stats = [SidebarMetric ''Total Records'' (length df),
                       SidebarMetric ''Date Range'' (length (remdups (map stg_date df))),
                       SidebarMetric ''Sources'' (length (remdups (map marketing_source df)))];
              df' = (if selected_source \<noteq> ''All''
                     then filter (\<lambda>r. marketing_source r = selected_source) df else df)
          in shown @ stats @
             [Kpis (display_kpis df'),
              TrendChart (plot_daily_trend df'),
              RoasChart (plot_roas_by_source df'),
              PerfChart (plot_channel_performance df'),
              FunnelChart (plot_conversion_funnel df'),
              DataTable (sort_values (\<lambda>a b. stg_date b \<le> stg_date a) df')])"

section \<open>Loader (src/load_bigquery.py)\<close>

text \<open>
  The world the loader acts on: the CSV files that \<^verbatim>\<open>pd.read_csv\<close> can read, the
  datasets and the tables of the warehouse, and the calls to the service that fail for
  a reason outside the model (credentials, network, permissions).
\<close>

datatype api_call = NewClient | GetDataset | CreateDataset | LoadJob | GetTable

datatype write_disposition = WRITE_TRUNCATE | WRITE_APPEND | WRITE_EMPTY

datatype load_error =
    ClientError | CreateDatasetError | FileNotFoundError | LoadJobError | GetTableError

record 'r world =
  csv_files :: "string \<rightharpoonup> 'r list"
  datasets :: "string set"
  tables :: "string \<rightharpoonup> 'r list"
  outage :: "api_call \<Rightarrow> bool"

text \<open>
  Modelled from the spec: the warehouse service is not part of the repository. A load
  job with full-replace semantics discards all prior contents of the destination and
  writes the new rows; the two other write dispositions of the service append to the
  table, or refuse a table that already holds rows. A finished job has written all the
  rows, a failed one none.
\<close>

definition load_table_from_dataframe ::
  "'r world \<Rightarrow> 'r list \<Rightarrow> string \<Rightarrow> write_disposition \<Rightarrow> load_error + 'r world" where
  "load_table_from_dataframe w df table_ref disposition =
     (let old = (case tables w table_ref of None \<Rightarrow> [] | Some rows \<Rightarrow> rows)
      in if outage w LoadJob then Inl LoadJobError
         else case disposition of
                WRITE_TRUNCATE \<Rightarrow> Inr (w\<lparr>tables := (tables w)(table_ref \<mapsto> df)\<rparr>)
              | WRITE_APPEND \<Rightarrow> Inr (w\<lparr>tables := (tables w)(table_ref \<mapsto> old @ df)\<rparr>)
              | WRITE_EMPTY \<Rightarrow>
                  if old = [] then Inr (w\<lparr>tables := (tables w)(table_ref \<mapsto> df)\<rparr>)
                  else Inl LoadJobError)"

text \<open>
  \<^verbatim>\<open>load_to_bigquery(csv_path, project_id, dataset_id, table_id, credentials_path)\<close>:
  the table reference returned, or the exception that ends the run, and the world
  afterwards. Any failure of \<^verbatim>\<open>get_dataset\<close> leads to \<^verbatim>\<open>create_dataset\<close>, which
  fails on a dataset that exists.
\<close>

definition load_to_bigquery ::
  "'r world \<Rightarrow> string \<Rightarrow> string \<Rightarrow> string \<Rightarrow> string \<Rightarrow> string
     \<Rightarrow> (load_error + string) \<times> 'r world" where
  "load_to_bigquery w csv_path project_id dataset_id table_id credentials_path =
     (if outage w NewClient then (Inl ClientError, w)
      else
        let dataset_ref = project_id @ ''.'' @ dataset_id;
            found = (dataset_ref \<in> datasets w \<and> \<not> outage w GetDataset)
        in if \<not> found \<and> (dataset_ref \<in> datasets w \<or> outage w CreateDataset)
           then (Inl CreateDatasetError, w)
           else
             let w1 = (if found then w
                       else w\<lparr>datasets := insert dataset_ref (datasets w)\<rparr>)
             in case csv_files w1 csv_path of
                  None \<Rightarrow> (Inl FileNotFoundError, w1)
                | Some df \<Rightarrow>
                    let table_ref = dataset_ref @ ''.'' @ table_id
                    in case load_table_from_dataframe w1 df table_ref WRITE_TRUNCATE of
                         Inl e \<Rightarrow> (Inl e, w1)
                       | Inr w2 \<Rightarrow>
                           if outage w2 GetTable \<or> tables w2 table_ref = None
                           then (Inl GetTableError, w2)
                           else (Inr table_ref, w2))"

section \<open>Sample inputs\<close>

text \<open>
  A small query result with two channels without spend, a client that answers the query
  from it, and a world in which the destination table already holds 1000 rows and the
  CSV file 35.
\<close>

definition sample_frame :: data_frame where
  "sample_frame =
     [\<lparr>stg_date = ymd2ord 2024 9 2, marketing_source = ''Email'', stg_spend = 500,
       stg_sessions = 800, stg_conversions = 10, stg_revenue = 1000\<rparr>,
      \<lparr>stg_date = ymd2ord 2024 9 2, marketing_source = ''Direct'', stg_spend = 0,
       stg_sessions = 2000, stg_conversions = 1, stg_revenue = 80\<rparr>,
      \<lparr>stg_date = ymd2ord 2024 9 3, marketing_source = ''Direct'', stg_spend = 0,
       stg_sessions = 1900, stg_conversions = 2, stg_revenue = 160\<rparr>,
      \<lparr>stg_date = ymd2ord 2024 9 3, marketing_source = ''Organic'', stg_spend = 0,
       stg_sessions = 5, stg_conversions = 0, stg_revenue = 0\<rparr>]"

definition sample_client :: bq_client where
  "sample_client start_date end_date =
     Inr (sort_values (\<lambda>a b. stg_date b \<le> stg_date a)
            (filter (\<lambda>r. start_date \<le> stg_date r \<and> stg_date r \<le> end_date) sample_frame))"

definition sample_world :: "nat world" where
  "sample_world =
     \<lparr>csv_files = [''data/raw/marketing_data.csv'' \<mapsto> replicate 35 1],
      datasets = {''proj.marketing_raw''},
      tables = [''proj.marketing_raw.daily_performance'' \<mapsto> replicate 1000 0],
      outage = (\<lambda>c. False)\<rparr>"

section \<open>Properties of the generator\<close>

lemma generate_row_key:
  "date (fst (generate_row np d src g)) = d \<and> source (fst (generate_row np d src g)) = src"
  by (simp add: generate_row_def Let_def split: prod.splits)

lemma generate_day_keys:
  "map (\<lambda>r. (date r, source r)) (fst (generate_day np d srcs g)) = map (Pair d) srcs"
proof (induction srcs arbitrary: g)
  case Nil
  show ?case by simp
next
  case (Cons src srcs)
  obtain r g' where row: "generate_row np d src g = (r, g')"
    by (cases "generate_row np d src g")
  obtain rs g'' where rest: "generate_day np d srcs g' = (rs, g'')"
    by (cases "generate_day np d srcs g'")
  from generate_row_key [of np d src g] row
  have "date r = d" "source r = src" by simp_all
  moreover from Cons.IH [of g'] rest
  have "map (\<lambda>r. (date r, source r)) rs = map (Pair d) srcs" by simp
  ultimately show ?case using row rest by simp
qed

lemma generate_days_keys:
  "map (\<lambda>r. (date r, source r)) (fst (generate_days np ds srcs g))
     = concat (map (\<lambda>d. map (Pair d) srcs) ds)"
proof (induction ds arbitrary: g)
  case Nil
  show ?case by simp
next
  case (Cons d ds)
  obtain rs g' where day: "generate_day np d srcs g = (rs, g')"
    by (cases "generate_day np d srcs g")
  obtain rss g'' where rest: "generate_days np ds srcs g' = (rss, g'')"
    by (cases "generate_days np ds srcs g'")
  from generate_day_keys [of np d srcs g] day
  have "map (\<lambda>r. (date r, source r)) rs = map (Pair d) srcs" by simp
  moreover from Cons.IH [of g'] rest
  have "map (\<lambda>r. (date r, source r)) rss = concat (map (\<lambda>d. map (Pair d) srcs) ds)"
    by simp
  ultimately show ?case using day rest by simp
qed

lemma round_half_even_nonneg: "0 \<le> x \<Longrightarrow> 0 \<le> round_half_even x"
  by (simp add: round_half_even_def Let_def)

lemma py_round2_nonneg: "0 \<le> x \<Longrightarrow> 0 \<le> py_round2 x"
  by (simp add: py_round2_def round_half_even_nonneg)

lemma py_round2_zero: "py_round2 0 = 0"
  by (simp add: py_round2_def round_half_even_def)

lemma generate_day_all:
  assumes "\<And>src g. P (fst (generate_row np d src g))"
  shows "\<forall>r \<in> set (fst (generate_day np d srcs g)). P r"
proof (induction srcs arbitrary: g)
  case Nil
  show ?case by simp
next
  case (Cons src srcs)
  obtain r g' where row: "generate_row np d src g = (r, g')"
    by (cases "generate_row np d src g")
  obtain rs g'' where rest: "generate_day np d srcs g' = (rs, g'')"
    by (cases "generate_day np d srcs g'")
  from assms [of src g] row have "P r" by simp
  moreover from Cons.IH [of g'] rest have "\<forall>r \<in> set rs. P r" by simp
  ultimately show ?case using row rest by simp
qed

lemma generate_days_all:
  assumes "\<And>d src g. P (fst (generate_row np d src g))"
  shows "\<forall>r \<in> set (fst (generate_days np ds srcs g)). P r"
proof (induction ds arbitrary: g)
  case Nil
  show ?case by simp
next
  case (Cons d ds)
  obtain rs g' where day: "generate_day np d srcs g = (rs, g')"
    by (cases "generate_day np d srcs g")
  obtain rss g'' where rest: "generate_days np ds srcs g' = (rss, g'')"
    by (cases "generate_days np ds srcs g'")
  from generate_day_all [of P np d srcs g] assms day have "\<forall>r \<in> set rs. P r" by simp
  moreover from Cons.IH [of g'] rest have "\<forall>r \<in> set rss. P r" by simp
  ultimately show ?case using day rest by auto
qed

lemma generate_marketing_data_all:
  assumes "\<And>d src g. P (fst (generate_row np d src g))"
  shows "\<forall>r \<in> set (fst (generate_marketing_data np g0 s e srcs)). P r"
  using generate_days_all [of P np, OF assms]
  by (simp add: generate_marketing_data_def)

lemma generate_row_conversions:
  assumes "\<And>n p g. fst (np_binomial np n p g) \<le> n"
  shows "0 \<le> conversions (fst (generate_row np d src g))
         \<and> conversions (fst (generate_row np d src g)) \<le> sessions (fst (generate_row np d src g))"
proof -
  obtain n g1 where po: "np_poisson np (avg_sessions (channel_profile src) * weekday_factor d) g = (n, g1)"
    by (cases "np_poisson np (avg_sessions (channel_profile src) * weekday_factor d) g")
  obtain c g2 where bi: "np_binomial np n (avg_conv_rate (channel_profile src)) g1 = (c, g2)"
    by (cases "np_binomial np n (avg_conv_rate (channel_profile src)) g1")
  from assms [of n "avg_conv_rate (channel_profile src)" g1] bi have "c \<le> n" by simp
  then show ?thesis using po bi
    by (simp add: generate_row_def Let_def split: prod.splits)
qed

lemma generate_row_nonneg:
  "0 \<le> spend (fst (generate_row np d src g)) \<and> 0 \<le> revenue (fst (generate_row np d src g))"
  by (simp add: generate_row_def Let_def py_round2_nonneg split: prod.splits)

lemma generate_row_zero_conversions:
  "conversions (fst (generate_row np d src g)) = 0 \<longrightarrow> revenue (fst (generate_row np d src g)) = 0"
  by (simp add: generate_row_def Let_def py_round2_zero split: prod.splits)

lemma generate_row_unpaid:
  assumes "src \<notin> {''Google Ads'', ''Facebook Ads'', ''LinkedIn'', ''Email''}"
  shows "spend (fst (generate_row np d src g)) = 0"
  using assms
  by (simp add: generate_row_def channel_profile_def Let_def py_round2_zero split: prod.splits)

text \<open>
  C3. For a start date not after the end date, the generator returns exactly
  (days in the inclusive range) times (number of channels) records, and their
  (date, channel) keys are, in order, every pair of a date of the range with a channel
  of the list: one record per pair.
\<close>

theorem generate_marketing_data_count:
  assumes "start_date \<le> end_date"
  shows "length (fst (generate_marketing_data np g start_date end_date sources))
           = nat (end_date - start_date + 1) * length sources
         \<and> map (\<lambda>r. (date r, source r))
             (fst (generate_marketing_data np g start_date end_date sources))
           = concat (map (\<lambda>d. map (Pair d) sources) [start_date..end_date])"
proof -
  let ?rows = "fst (generate_marketing_data np g start_date end_date sources)"
  have keys: "map (\<lambda>r. (date r, source r)) ?rows
                = concat (map (\<lambda>d. map (Pair d) sources) [start_date..end_date])"
    by (simp add: generate_marketing_data_def date_range_def generate_days_keys)
  have "length ?rows = length (map (\<lambda>r. (date r, source r)) ?rows)" by simp
  also have "\<dots> = length (concat (map (\<lambda>d. map (Pair d) sources) [start_date..end_date]))"
    by (simp only: keys)
  also have "\<dots> = length [start_date..end_date] * length sources"
    by (simp add: length_concat o_def sum_list_triv)
  also have "\<dots> = nat (end_date - start_date + 1) * length sources"
    by simp
  finally show ?thesis using keys by simp
qed

theorem generate_marketing_data_count_witness:
  "ymd2ord 2024 9 1 \<le> ymd2ord 2024 9 7
   \<and> length (fst (generate_marketing_data toy_random 0 (ymd2ord 2024 9 1) (ymd2ord 2024 9 7)
                 default_sources)) = 35"
  using generate_marketing_data_count
    [of "ymd2ord 2024 9 1" "ymd2ord 2024 9 7" toy_random 0 default_sources]
  by (simp add: ymd2ord_def days_before_year_def days_before_month_def is_leap_def)

text \<open>
  C2. When the binomial sampler returns at most its number of trials, every generated
  record has 0 \<le> conversions \<le> sessions: conversions is the binomial draw with
  n = sessions and p = the channel's conversion rate.
\<close>

theorem conversions_within_sessions:
  assumes "\<And>n p g. fst (np_binomial np n p g) \<le> n"
  shows "\<forall>r \<in> set (fst (generate_marketing_data np g0 start_date end_date sources)).
           0 \<le> conversions r \<and> conversions r \<le> sessions r"
  by (rule generate_marketing_data_all) (rule generate_row_conversions [OF assms])

theorem conversions_within_sessions_witness:
  "(\<forall>n p g. fst (np_binomial toy_random n p g) \<le> n)
   \<and> map (\<lambda>r. (conversions r, sessions r))
       (fst (generate_marketing_data toy_random 0 (ymd2ord 2024 9 7) (ymd2ord 2024 9 8)
              [''Email'', ''Direct'']))
     = [(28, 560), (70, 1401), (0, 561), (0, 1402)]
   \<and> list_all (\<lambda>r. 0 \<le> conversions r \<and> conversions r \<le> sessions r)
       (fst (generate_marketing_data toy_random 0 (ymd2ord 2024 9 7) (ymd2ord 2024 9 8)
              [''Email'', ''Direct'']))"
proof -
  have h: "\<And>n p g. fst (np_binomial toy_random n p g) \<le> n"
    by (simp add: toy_random_def)
  have v: "map (\<lambda>r. (conversions r, sessions r))
       (fst (generate_marketing_data toy_random 0 (ymd2ord 2024 9 7) (ymd2ord 2024 9 8)
              [''Email'', ''Direct'']))
     = [(28, 560), (70, 1401), (0, 561), (0, 1402)]"
    by code_simp
  from conversions_within_sessions
    [of toy_random 0 "ymd2ord 2024 9 7" "ymd2ord 2024 9 8" "[''Email'', ''Direct'']", OF h]
  show ?thesis using h v by (simp add: list_all_iff)
qed

text \<open>
  C4. Every generated record has spend \<ge> 0 and revenue \<ge> 0, whatever the samplers
  return: both amounts pass through \<^verbatim>\<open>max(0, x)\<close> before they are rounded and stored.
\<close>

theorem spend_revenue_nonneg:
  "\<forall>r \<in> set (fst (generate_marketing_data np g0 start_date end_date sources)).
     0 \<le> spend r \<and> 0 \<le> revenue r"
  by (rule generate_marketing_data_all) (rule generate_row_nonneg)

theorem spend_revenue_nonneg_witness:
  "map (\<lambda>r. (spend r, revenue r))
       (fst (generate_marketing_data toy_random 0 (ymd2ord 2024 9 2) (ymd2ord 2024 9 2)
              [''Google Ads'', ''Email'']))
     = [(0, 1125), (1100, 0)]
   \<and> list_all (\<lambda>r. 0 \<le> spend r \<and> 0 \<le> revenue r)
       (fst (generate_marketing_data toy_random 0 (ymd2ord 2024 9 2) (ymd2ord 2024 9 2)
              [''Google Ads'', ''Email'']))"
proof -
  have v: "map (\<lambda>r. (spend r, revenue r))
       (fst (generate_marketing_data toy_random 0 (ymd2ord 2024 9 2) (ymd2ord 2024 9 2)
              [''Google Ads'', ''Email'']))
     = [(0, 1125), (1100, 0)]"
    by code_simp
  from spend_revenue_nonneg
    [of toy_random 0 "ymd2ord 2024 9 2" "ymd2ord 2024 9 2" "[''Google Ads'', ''Email'']"]
  show ?thesis using v by (simp add: list_all_iff)
qed

text \<open>
  C5. The generator is deterministic. The state of numpy's global generator before the
  call is the only input besides the two dates and the channel list; it is overwritten by
  \<^verbatim>\<open>np.random.seed(42)\<close>, so two runs started from any two states return the same
  data frame (and leave the same state behind).
\<close>

theorem generator_ignores_prior_state:
  "generate_marketing_data np g1 start_date end_date sources
     = generate_marketing_data np g2 start_date end_date sources"
  by (simp add: generate_marketing_data_def)

text \<open>
  C6. For every date, channel and generator state, the number of sessions is the Poisson
  draw whose mean is the channel's average sessions times 0.7 when the weekday index is
  at least 5 and times 1 otherwise; the index is at least 5 exactly on Saturday (5) and
  Sunday (6).
\<close>

theorem sessions_poisson_mean:
  "sessions (fst (generate_row np d src g))
     = int (fst (np_poisson np
         (avg_sessions (channel_profile src) * (if 5 \<le> weekday d then 7 / 10 else 1)) g))
   \<and> (5 \<le> weekday d \<longleftrightarrow> weekday d = 5 \<or> weekday d = 6)"
proof -
  have "weekday d \<le> 6" by (simp add: weekday_def)
  then have "5 \<le> weekday d \<longleftrightarrow> weekday d = 5 \<or> weekday d = 6" by auto
  then show ?thesis
    by (simp add: generate_row_def weekday_factor_def Let_def split: prod.splits)
qed

theorem sessions_poisson_mean_witness:
  "weekday (ymd2ord 2024 9 7) = 5
   \<and> sessions (fst (generate_row toy_random (ymd2ord 2024 9 7) ''Email'' 5))
       = int (fst (np_poisson toy_random (800 * (7 / 10)) 5))
   \<and> weekday (ymd2ord 2024 9 9) = 0
   \<and> sessions (fst (generate_row toy_random (ymd2ord 2024 9 9) ''Email'' 5))
       = int (fst (np_poisson toy_random 800 5))"
proof -
  have w: "weekday (ymd2ord 2024 9 7) = 5" "weekday (ymd2ord 2024 9 9) = 0"
    by (simp_all add: weekday_def ymd2ord_def days_before_year_def days_before_month_def
        is_leap_def)
  have p: "avg_sessions (channel_profile ''Email'') = 800"
    by (simp add: channel_profile_def)
  from sessions_poisson_mean [of toy_random "ymd2ord 2024 9 7" "''Email''" 5]
    sessions_poisson_mean [of toy_random "ymd2ord 2024 9 9" "''Email''" 5]
  show ?thesis using w p by simp
qed

text \<open>
  C7. A channel name other than the four paid ones gets the parameters of Direct. Its
  record has spend exactly 0, the generator state after the record is the state after
  three draws only (Poisson, binomial, and the normal draw for revenue: none for spend),
  and every record of that channel in the generator's output has spend 0.
\<close>

theorem unknown_channel_direct_profile:
  assumes "src \<notin> {''Google Ads'', ''Facebook Ads'', ''LinkedIn'', ''Email''}"
  shows "channel_profile src = channel_profile ''Direct''
         \<and> spend (fst (generate_row np d src g)) = 0
         \<and> snd (generate_row np d src g)
             = snd (np_normal np 80 24
                 (snd (np_binomial np (fst (np_poisson np (2000 * weekday_factor d) g)) (3 / 100)
                        (snd (np_poisson np (2000 * weekday_factor d) g)))))
         \<and> (\<forall>r \<in> set (fst (generate_marketing_data np g0 start_date end_date sources)).
               source r = src \<longrightarrow> spend r = 0)"
proof -
  have prof: "channel_profile src = channel_profile ''Direct''"
    using assms by (simp add: channel_profile_def)
  have sp: "spend (fst (generate_row np d src g)) = 0"
    by (rule generate_row_unpaid [OF assms])
  have st: "snd (generate_row np d src g)
             = snd (np_normal np 80 24
                 (snd (np_binomial np (fst (np_poisson np (2000 * weekday_factor d) g)) (3 / 100)
                        (snd (np_poisson np (2000 * weekday_factor d) g)))))"
    using assms
    by (simp add: generate_row_def channel_profile_def Let_def split: prod.splits)
  have "\<And>d' src' g'. source (fst (generate_row np d' src' g')) = src
          \<longrightarrow> spend (fst (generate_row np d' src' g')) = 0"
    using generate_row_key generate_row_unpaid [OF assms] by metis
  then have "\<forall>r \<in> set (fst (generate_marketing_data np g0 start_date end_date sources)).
               source r = src \<longrightarrow> spend r = 0"
    by (rule generate_marketing_data_all)
  with prof sp st show ?thesis by simp
qed

theorem unknown_channel_direct_profile_witness:
  "''Organic'' \<notin> {''Google Ads'', ''Facebook Ads'', ''LinkedIn'', ''Email''}
   \<and> channel_profile ''Organic'' = channel_profile ''Direct''
   \<and> map (\<lambda>r. (source r, spend r))
       (fst (generate_marketing_data toy_random 0 (ymd2ord 2024 9 2) (ymd2ord 2024 9 2)
              [''Organic'', ''Email'', ''Direct'']))
     = [(''Organic'', 0), (''Email'', 800), (''Direct'', 0)]
   \<and> list_all (\<lambda>r. source r = ''Organic'' \<longrightarrow> spend r = 0)
       (fst (generate_marketing_data toy_random 0 (ymd2ord 2024 9 2) (ymd2ord 2024 9 2)
              [''Organic'', ''Email'', ''Direct'']))"
proof -
  have h: "''Organic'' \<notin> {''Google Ads'', ''Facebook Ads'', ''LinkedIn'', ''Email''}"
    by simp
  have v: "map (\<lambda>r. (source r, spend r))
       (fst (generate_marketing_data toy_random 0 (ymd2ord 2024 9 2) (ymd2ord 2024 9 2)
              [''Organic'', ''Email'', ''Direct'']))
     = [(''Organic'', 0), (''Email'', 800), (''Direct'', 0)]"
    by code_simp
  from unknown_channel_direct_profile
    [OF h, of toy_random 0 0 0 "ymd2ord 2024 9 2" "ymd2ord 2024 9 2"
       "[''Organic'', ''Email'', ''Direct'']"]
  show ?thesis using h v by (simp add: list_all_iff)
qed

text \<open>
  C10. In every generated record, conversions = 0 implies revenue = 0: revenue is the
  number of conversions times the sampled value per conversion, clamped and rounded.
\<close>

theorem zero_conversions_zero_revenue:
  "\<forall>r \<in> set (fst (generate_marketing_data np g0 start_date end_date sources)).
     conversions r = 0 \<longrightarrow> revenue r = 0"
  by (rule generate_marketing_data_all) (rule generate_row_zero_conversions)

theorem zero_conversions_zero_revenue_witness:
  "map (\<lambda>r. (conversions r, revenue r))
       (fst (generate_marketing_data toy_random 0 (ymd2ord 2024 9 7) (ymd2ord 2024 9 8)
              [''Email'', ''Direct'']))
     = [(28, 280), (70, 15680), (0, 0), (0, 0)]
   \<and> list_all (\<lambda>r. conversions r = 0 \<longrightarrow> revenue r = 0)
       (fst (generate_marketing_data toy_random 0 (ymd2ord 2024 9 7) (ymd2ord 2024 9 8)
              [''Email'', ''Direct'']))"
proof -
  have v: "map (\<lambda>r. (conversions r, revenue r))
       (fst (generate_marketing_data toy_random 0 (ymd2ord 2024 9 7) (ymd2ord 2024 9 8)
              [''Email'', ''Direct'']))
     = [(28, 280), (70, 15680), (0, 0), (0, 0)]"
    by code_simp
  from zero_conversions_zero_revenue
    [of toy_random 0 "ymd2ord 2024 9 7" "ymd2ord 2024 9 8" "[''Email'', ''Direct'']"]
  show ?thesis using v by (simp add: list_all_iff)
qed

section \<open>Properties of the dashboard\<close>

lemma truediv_zero_spend:
  "truediv x 0 = (if x = 0 then NaN else if 0 < x then PosInf else NegInf)"
  by (simp add: truediv_def)

lemma display_kpis_zero_spend:
  "sum_list (map stg_spend df) = 0 \<Longrightarrow> avg_roas (display_kpis df) = 0"
  by (simp add: display_kpis_def Let_def)

text \<open>
  C1. The per-channel breakdowns on a frame in which the channels Direct and Organic
  have total spend 0: the ROAS chart reports an infinity for Direct and NaN for Organic,
  not 0, and so does the ROAS column of the channel performance frame; no division
  error is raised. The key figures, which guard the same quotient, report 0 for the
  frame restricted to Direct.
\<close>

theorem zero_spend_roas_not_zero:
  "group_sum marketing_source stg_spend sample_frame ''Direct'' = 0
   \<and> plot_roas_by_source sample_frame
       = \<lparr>roas_y = [''Email'', ''Direct'', ''Organic''], roas_x = [Finite 2, PosInf, NaN],
          roas_colors = [''#6BCF7F'', ''#6BCF7F'', ''#6BCF7F'']\<rparr>
   \<and> map (\<lambda>a. (perf_source a, perf_roas a)) (channel_performance_agg sample_frame)
       = [(''Organic'', NaN), (''Direct'', PosInf), (''Email'', Finite 2)]
   \<and> avg_roas (display_kpis (filter (\<lambda>r. marketing_source r = ''Direct'') sample_frame)) = 0"
  by code_simp

text \<open>
  C9. When the query succeeds with an empty result, loading shows no error message and
  the page consists of the one warning that no data is available; the run ends there
  normally.
\<close>

theorem empty_result_no_data:
  assumes "run_query start_date end_date = Inr []"
  shows "load_marketing_data (Some run_query) start_date end_date = ([], [])
         \<and> main (Some run_query) start_date end_date selected_source
             = [Warning ''No data available for the selected date range.'']"
  using assms by (simp add: main_def load_marketing_data_def)

theorem empty_result_no_data_witness:
  "sample_client (ymd2ord 2024 10 1) (ymd2ord 2024 10 31) = Inr []
   \<and> main (Some sample_client) (ymd2ord 2024 10 1) (ymd2ord 2024 10 31) ''All''
       = [Warning ''No data available for the selected date range.'']"
proof -
  have h: "sample_client (ymd2ord 2024 10 1) (ymd2ord 2024 10 31) = Inr []"
    by code_simp
  from empty_result_no_data
    [of sample_client "ymd2ord 2024 10 1" "ymd2ord 2024 10 31" "''All''"]
  show ?thesis using h by simp
qed

section \<open>Properties of the loader\<close>

text \<open>
  The loader does succeed when no call to the service fails and the CSV file exists.
\<close>

lemma load_to_bigquery_succeeds:
  assumes "\<forall>c. \<not> outage w c" and "csv_files w csv_path = Some df"
  shows "fst (load_to_bigquery w csv_path project_id dataset_id table_id credentials_path)
           = Inr (project_id @ ''.'' @ dataset_id @ ''.'' @ table_id)"
  using assms
  by (simp add: load_to_bigquery_def load_table_from_dataframe_def Let_def)

text \<open>
  C8. A run of the loader that succeeds returns the reference project.dataset.table,
  and the destination table then holds exactly the rows of the CSV file, whatever the
  tables and datasets of the warehouse were before: none of the prior rows remains.
\<close>

theorem full_replace_load:
  assumes "load_to_bigquery w csv_path project_id dataset_id table_id credentials_path
             = (Inr table_ref, w')"
  shows "table_ref = project_id @ ''.'' @ dataset_id @ ''.'' @ table_id
         \<and> csv_files w csv_path \<noteq> None
         \<and> tables w' table_ref = csv_files w csv_path"
  using assms
  by (auto simp add: load_to_bigquery_def load_table_from_dataframe_def Let_def
      split: if_splits option.splits sum.splits)

theorem full_replace_load_witness:
  "fst (load_to_bigquery sample_world ''data/raw/marketing_data.csv'' ''proj''
          ''marketing_raw'' ''daily_performance'' ''credentials.json'')
     = Inr ''proj.marketing_raw.daily_performance''
   \<and> map_option length (tables sample_world ''proj.marketing_raw.daily_performance'')
       = Some 1000
   \<and> map_option length
       (tables (snd (load_to_bigquery sample_world ''data/raw/marketing_data.csv'' ''proj''
                       ''marketing_raw'' ''daily_performance'' ''credentials.json''))
          ''proj.marketing_raw.daily_performance'')
       = Some 35"
proof -
  let ?run = "load_to_bigquery sample_world ''data/raw/marketing_data.csv'' ''proj''
                ''marketing_raw'' ''daily_performance'' ''credentials.json''"
  have f: "fst ?run = Inr ''proj.marketing_raw.daily_performance''"
    by (simp add: load_to_bigquery_def load_table_from_dataframe_def sample_world_def Let_def)
  then have h: "?run = (Inr ''proj.marketing_raw.daily_performance'', snd ?run)"
    by (metis prod.collapse)
  have before: "tables sample_world ''proj.marketing_raw.daily_performance''
                  = Some (replicate 1000 0)"
    and contents: "csv_files sample_world ''data/raw/marketing_data.csv'' = Some (replicate 35 1)"
    by (simp_all add: sample_world_def)
  from full_replace_load [OF h] show ?thesis
    using f before contents by simp
qed

end
